theory Spec2Isabelle
  imports Main
begin

section \<open>The playback queue of \<^verbatim>\<open>core/playback.py\<close>\<close>

text \<open>
  A shallow embedding of \<^verbatim>\<open>PlaybackManager\<close>. The object's fields are a record;
  every method takes the record and returns the updated one. What the methods do to the
  outside is recorded in the record as well: the signals they emit (\<open>emitted\<close>), the
  calls they make on \<^verbatim>\<open>self.player\<close> (\<open>player_cmds\<close>) and the \<^verbatim>\<open>play_next\<close>
  callbacks they hand to \<^verbatim>\<open>QTimer.singleShot\<close> (\<open>timers\<close>). What the methods read
  from the outside is a parameter: the track database and the file system (\<open>env\<close>), the
  player's state and position, the draws of the random number generator.
  Signals of the player are delivered between two method calls, never inside one.
\<close>

subsection \<open>Tracks, the database and the file system\<close>

text \<open>\<^verbatim>\<open>core/models.py\<close>, \<^verbatim>\<open>Track\<close>: the fields the playback manager touches.
  A column read from the database may be \<^verbatim>\<open>None\<close>.\<close>

record track =
  track_id :: "int option"
  filepath :: "string option"
  title :: string
  artist :: string

text \<open>\<^verbatim>\<open>database.get_track_by_id\<close> returns a track or \<^verbatim>\<open>None\<close>;
  \<^verbatim>\<open>os.path.exists\<close> answers for a path.\<close>

record env =
  get_track_by_id :: "int \<Rightarrow> track option"
  path_exists :: "string \<Rightarrow> bool"

text \<open>The test \<^verbatim>\<open>track and track.filepath and os.path.exists(track.filepath)\<close>:
  the path to hand to the player when the test succeeds.\<close>

definition playable_path :: "env \<Rightarrow> track option \<Rightarrow> string option" where
  "playable_path e tr =
     (case tr of
        None \<Rightarrow> None
      | Some t \<Rightarrow>
          (case filepath t of
             None \<Rightarrow> None
           | Some p \<Rightarrow> if p \<noteq> [] \<and> path_exists e p then Some p else None))"

subsection \<open>Python values\<close>

definition digit_char :: "nat \<Rightarrow> char" where
  "digit_char d = ''0123456789'' ! d"

fun str_nat :: "nat \<Rightarrow> string" where
  "str_nat n = (if n < 10 then [digit_char n] else str_nat (n div 10) @ [digit_char (n mod 10)])"

declare str_nat.simps [simp del]

definition str_int :: "int \<Rightarrow> string" where
  "str_int i = (if i < 0 then CHR ''-'' # str_nat (nat (- i)) else str_nat (nat i))"

text \<open>\<^verbatim>\<open>xs.index(x)\<close>: the first position of \<open>x\<close>; \<open>None\<close> stands for
  \<^verbatim>\<open>ValueError\<close>.\<close>

fun py_index :: "int list \<Rightarrow> int \<Rightarrow> int option" where
  "py_index [] x = None"
| "py_index (y # ys) x =
     (if y = x then Some 0 else map_option (\<lambda>i. i + 1) (py_index ys x))"

text \<open>\<^verbatim>\<open>xs[i]\<close>: a negative index counts from the end; \<open>None\<close> stands for
  \<^verbatim>\<open>IndexError\<close>.\<close>

definition py_get :: "int list \<Rightarrow> int \<Rightarrow> int option" where
  "py_get xs i =
     (if 0 \<le> i \<and> i < int (length xs) then Some (xs ! nat i)
      else if - int (length xs) \<le> i \<and> i < 0 then Some (xs ! nat (int (length xs) + i))
      else None)"

text \<open>The truth value of an optional track identifier: \<^verbatim>\<open>None\<close> and \<open>0\<close> are false.\<close>

definition truthy :: "int option \<Rightarrow> bool" where
  "truthy v = (case v of None \<Rightarrow> False | Some c \<Rightarrow> c \<noteq> 0)"

text \<open>\<^verbatim>\<open>xs[i], xs[j] = xs[j], xs[i]\<close>: both reads, then the write at \<open>i\<close>, then
  the write at \<open>j\<close>.\<close>

definition swap :: "nat \<Rightarrow> nat \<Rightarrow> 'a list \<Rightarrow> 'a list" where
  "swap i j xs = (xs[i := xs ! j])[j := xs ! i]"

text \<open>\<^verbatim>\<open>random.shuffle\<close> of the standard library: for \<open>i\<close> from the last index
  down to 1, exchange \<open>xs[i]\<close> with \<open>xs[j]\<close>, \<open>j = randbelow(i + 1)\<close>. The generator's
  draws are the list \<open>rs\<close>, each reduced below \<open>i + 1\<close>; a missing draw counts as 0.\<close>

fun shuffle_from :: "nat \<Rightarrow> nat list \<Rightarrow> 'a list \<Rightarrow> 'a list" where
  "shuffle_from 0 rs xs = xs"
| "shuffle_from (Suc k) rs xs =
     (let j = (case rs of [] \<Rightarrow> 0 | r # _ \<Rightarrow> r mod (Suc k + 1))
      in shuffle_from k (tl rs) (swap (Suc k) j xs))"

definition random_shuffle :: "nat list \<Rightarrow> 'a list \<Rightarrow> 'a list" where
  "random_shuffle rs xs = shuffle_from (length xs - 1) rs xs"

subsection \<open>The manager's state\<close>

text \<open>\<^verbatim>\<open>class PlaybackMode\<close>: plain integer constants; \<^verbatim>\<open>set_playback_mode\<close> takes
  any \<^verbatim>\<open>int\<close>.\<close>

abbreviation (input) NORMAL :: int where "NORMAL \<equiv> 0"
abbreviation (input) REPEAT_ONE :: int where "REPEAT_ONE \<equiv> 1"
abbreviation (input) REPEAT_ALL :: int where "REPEAT_ALL \<equiv> 2"
abbreviation (input) SHUFFLE :: int where "SHUFFLE \<equiv> 3"

datatype player_state = STOPPED | PLAYING | PAUSED

datatype media_status = EndOfMedia | InvalidMedia | LoadedMedia | OtherStatus

datatype signal =
    StateChanged player_state
  | TrackChanged "track option"
  | PlaybackError string
  | QueueChanged "int list"
  | ModeChanged int

datatype player_cmd = SetSource string | Play | Pause | Stop | SetPosition int

record manager =
  current_track :: "track option"
  current_playlist_ids :: "int list"
  playback_queue_ids :: "int list"
  current_queue_index :: int
  playback_mode :: int
  playing_next_automatically :: bool
  emitted :: "signal list"
  player_cmds :: "player_cmd list"
  timers :: "nat list"

text \<open>\<^verbatim>\<open>__init__\<close>.\<close>

definition init :: manager where
  "init =
     \<lparr> current_track = None,
       current_playlist_ids = [],
       playback_queue_ids = [],
       current_queue_index = - 1,
       playback_mode = REPEAT_ALL,
       playing_next_automatically = False,
       emitted = [],
       player_cmds = [],
       timers = [] \<rparr>"

definition emit :: "signal \<Rightarrow> manager \<Rightarrow> manager" where
  "emit sg s = s\<lparr>emitted := emitted s @ [sg]\<rparr>"

definition player_call :: "player_cmd \<Rightarrow> manager \<Rightarrow> manager" where
  "player_call c s = s\<lparr>player_cmds := player_cmds s @ [c]\<rparr>"

text \<open>\<^verbatim>\<open>QTimer.singleShot(ms, self.play_next)\<close>.\<close>

definition single_shot :: "nat \<Rightarrow> manager \<Rightarrow> manager" where
  "single_shot ms s = s\<lparr>timers := timers s @ [ms]\<rparr>"

subsection \<open>The methods\<close>

text \<open>\<^verbatim>\<open>stop\<close>.\<close>

definition stop :: "manager \<Rightarrow> manager" where
  "stop s =
     emit (TrackChanged None)
       ((player_call Stop s)\<lparr>current_track := None, current_queue_index := - 1\<rparr>)"

text \<open>The error message of a track that cannot be played.\<close>

definition missing_msg :: "int \<Rightarrow> track option \<Rightarrow> string" where
  "missing_msg tid tr =
     ''Track not found or file missing: ID '' @ str_int tid @
     (case tr of
        None \<Rightarrow> []
      | Some t \<Rightarrow> '' Path: '' @ (case filepath t of None \<Rightarrow> ''None'' | Some p \<Rightarrow> p))"

text \<open>The block that \<^verbatim>\<open>set_playlist\<close> (lines 92 to 111) and
  \<^verbatim>\<open>play_track_at_index\<close> (lines 153 to 176) both contain: look the track at the
  current index up and play it, or report it and schedule \<^verbatim>\<open>play_next\<close>.\<close>

definition load_current :: "env \<Rightarrow> manager \<Rightarrow> manager" where
  "load_current e s =
     (let tid = playback_queue_ids s ! nat (current_queue_index s);
          tr = get_track_by_id e tid
      in case playable_path e tr of
           Some p \<Rightarrow>
             (emit (TrackChanged tr)
               (player_call Play
                 (player_call (SetSource p)
                   (s\<lparr>current_track := tr, playing_next_automatically := True\<rparr>))))
             \<lparr>playing_next_automatically := False\<rparr>
         | None \<Rightarrow> single_shot 50 (emit (PlaybackError (missing_msg tid tr)) s))"

text \<open>\<^verbatim>\<open>set_playlist\<close>.\<close>

definition set_playlist :: "env \<Rightarrow> manager \<Rightarrow> int list \<Rightarrow> int \<Rightarrow> int option \<Rightarrow> manager" where
  "set_playlist e s track_ids playlist_mode start_track_id =
     (if track_ids = [] then s
      else
        let s1 = s\<lparr>playback_queue_ids := track_ids, playback_mode := playlist_mode\<rparr>;
            idx = (case start_track_id of
                     None \<Rightarrow> 0
                   | Some sid \<Rightarrow>
                       if sid \<in> set (playback_queue_ids s1)
                       then (case py_index (playback_queue_ids s1) sid of
                               Some i \<Rightarrow> i | None \<Rightarrow> 0)
                       else 0)
        in load_current e (s1\<lparr>current_queue_index := idx\<rparr>))"

text \<open>\<^verbatim>\<open>play_track_at_index\<close>.\<close>

definition play_track_at_index :: "env \<Rightarrow> manager \<Rightarrow> int \<Rightarrow> manager" where
  "play_track_at_index e s index =
     (if 0 \<le> index \<and> index < int (length (playback_queue_ids s))
      then load_current e (s\<lparr>current_queue_index := index\<rparr>)
      else stop s)"

text \<open>\<^verbatim>\<open>play\<close>; \<open>st\<close> is what \<^verbatim>\<open>self.player.playbackState()\<close> returns.\<close>

definition play :: "env \<Rightarrow> manager \<Rightarrow> player_state \<Rightarrow> manager" where
  "play e s st =
     (if st = PAUSED then player_call Play s
      else if current_queue_index s \<noteq> - 1 \<and> current_track s \<noteq> None
      then emit (TrackChanged (current_track s)) (player_call Play s)
      else if playback_queue_ids s \<noteq> [] then play_track_at_index e s 0
      else s)"

text \<open>\<^verbatim>\<open>pause\<close> and \<^verbatim>\<open>toggle_play_pause\<close>.\<close>

definition pause :: "manager \<Rightarrow> player_state \<Rightarrow> manager" where
  "pause s st = (if st = PLAYING then player_call Pause s else s)"

definition toggle_play_pause :: "env \<Rightarrow> manager \<Rightarrow> player_state \<Rightarrow> manager" where
  "toggle_play_pause e s st = (if st = PLAYING then pause s st else play e s st)"

text \<open>\<^verbatim>\<open>play_next\<close>.\<close>

definition play_next :: "env \<Rightarrow> manager \<Rightarrow> manager" where
  "play_next e s =
     (if playback_queue_ids s = [] then stop s
      else
        let current_index = current_queue_index s;
            next_index = (if playback_mode s = REPEAT_ONE then current_index
                          else current_index + 1);
            at_end = (next_index \<ge> int (length (playback_queue_ids s)))
        in if at_end \<and> playback_mode s \<notin> {REPEAT_ALL, SHUFFLE} then stop s
           else
             let next_index = (if at_end then 0 else next_index)
             in if next_index \<noteq> - 1
                then player_call Play (play_track_at_index e s next_index)
                else stop s)"

text \<open>\<^verbatim>\<open>play_previous\<close>; \<open>pos\<close> is what \<^verbatim>\<open>self.player.position()\<close> returns.\<close>

definition play_previous :: "env \<Rightarrow> manager \<Rightarrow> int \<Rightarrow> manager" where
  "play_previous e s pos =
     (if pos > 3000 then player_call (SetPosition 0) s
      else if playback_queue_ids s = [] then stop s
      else
        let current_index = current_queue_index s;
            prev_index = (if playback_mode s = REPEAT_ONE then current_index
                          else current_index - 1);
            n = int (length (playback_queue_ids s))
        in if prev_index < 0 \<and> playback_mode s \<notin> {REPEAT_ALL, SHUFFLE} \<and> \<not> n > 0
           then stop s
           else
             let prev_index =
                   (if prev_index < 0
                    then (if playback_mode s \<in> {REPEAT_ALL, SHUFFLE} then n - 1 else 0)
                    else prev_index)
             in if prev_index \<noteq> - 1
                then player_call Play (play_track_at_index e s prev_index)
                else stop s)"

text \<open>A method that raises leaves the object as it is at that moment: an outcome is
  the state together with how the call ended.\<close>

datatype py_exn = IndexError | ValueError

datatype outcome = Returned manager | Raised py_exn manager

fun state_of :: "outcome \<Rightarrow> manager" where
  "state_of (Returned s) = s"
| "state_of (Raised x s) = s"

fun returned :: "outcome \<Rightarrow> bool" where
  "returned (Returned s) = True"
| "returned (Raised x s) = False"

text \<open>\<^verbatim>\<open>_shuffle_queue\<close>; \<open>rs\<close> are the draws of \<^verbatim>\<open>random.shuffle\<close>.\<close>

definition shuffle_queue :: "nat list \<Rightarrow> manager \<Rightarrow> outcome" where
  "shuffle_queue rs s =
     (if length (playback_queue_ids s) > 1 then
        if current_queue_index s \<noteq> - 1 \<and>
           py_get (playback_queue_ids s) (current_queue_index s) = None
        then Raised IndexError s
        else
          let current_id = (if current_queue_index s \<noteq> - 1
                            then py_get (playback_queue_ids s) (current_queue_index s)
                            else None);
              q = random_shuffle rs (playback_queue_ids s);
              s1 = s\<lparr>playback_queue_ids := q\<rparr>
          in if truthy current_id \<and> the current_id \<in> set q then
               (case py_index q (the current_id) of
                  None \<Rightarrow> Raised ValueError s1
                | Some i \<Rightarrow>
                    Returned (s1\<lparr>playback_queue_ids := swap 0 (nat i) q,
                                 current_queue_index := 0\<rparr>))
             else if q \<noteq> [] then Returned (s1\<lparr>current_queue_index := 0\<rparr>)
             else Returned (s1\<lparr>current_queue_index := - 1\<rparr>)
      else
        Returned (s\<lparr>current_queue_index := (if playback_queue_ids s \<noteq> [] then 0 else - 1)\<rparr>))"

text \<open>\<^verbatim>\<open>set_playback_mode\<close>.\<close>

definition set_playback_mode :: "nat list \<Rightarrow> manager \<Rightarrow> int \<Rightarrow> outcome" where
  "set_playback_mode rs s mode =
     (if mode = playback_mode s then Returned s
      else
        let s1 = s\<lparr>playback_mode := mode\<rparr> in
        if current_queue_index s1 \<noteq> - 1 \<and>
           py_get (playback_queue_ids s1) (current_queue_index s1) = None
        then Raised IndexError s1
        else
          let current_id_playing =
                (if current_queue_index s1 \<noteq> - 1
                 then py_get (playback_queue_ids s1) (current_queue_index s1)
                 else None);
              s2 = s1\<lparr>playback_queue_ids := current_playlist_ids s1\<rparr>
          in case (if mode = SHUFFLE then shuffle_queue rs s2 else Returned s2) of
               Raised x s3 \<Rightarrow> Raised x s3
             | Returned s3 \<Rightarrow>
                 let q = playback_queue_ids s3;
                     idx = (if truthy current_id_playing \<and> the current_id_playing \<in> set q
                            then (case py_index q (the current_id_playing) of
                                    Some i \<Rightarrow> i
                                  | None \<Rightarrow> (if q \<noteq> [] then 0 else - 1))
                            else if q \<noteq> [] then 0
                            else - 1);
                     s4 = s3\<lparr>current_queue_index := idx\<rparr>
                 in Returned (emit (ModeChanged (playback_mode s4))
                               (emit (QueueChanged (playback_queue_ids s4)) s4)))"

text \<open>\<^verbatim>\<open>play_track_by_id\<close>. An \<^verbatim>\<open>IndexError\<close> of \<^verbatim>\<open>_shuffle_queue\<close> leaves the
  method; a \<^verbatim>\<open>ValueError\<close> inside the \<^verbatim>\<open>try\<close> blocks is answered by
  \<^verbatim>\<open>play_next\<close>.\<close>

definition play_track_by_id :: "env \<Rightarrow> nat list \<Rightarrow> manager \<Rightarrow> int \<Rightarrow> outcome" where
  "play_track_by_id e rs s tid =
     (if tid \<in> set (playback_queue_ids s) then
        (case py_index (playback_queue_ids s) tid of
           Some i \<Rightarrow> Returned (play_track_at_index e s i)
         | None \<Rightarrow> Raised ValueError s)
      else if tid \<in> set (current_playlist_ids s) then
        (case py_index (current_playlist_ids s) tid of
           None \<Rightarrow> Returned (play_next e s)
         | Some original_index \<Rightarrow>
             if playback_mode s = SHUFFLE then
               (case shuffle_queue rs (s\<lparr>playback_queue_ids := current_playlist_ids s\<rparr>) of
                  Raised x s1 \<Rightarrow>
                    (if x = ValueError then Returned (play_next e s1) else Raised x s1)
                | Returned s1 \<Rightarrow>
                    (case py_index (playback_queue_ids s1) tid of
                       Some i \<Rightarrow>
                         Returned (play_track_at_index e (s1\<lparr>current_queue_index := i\<rparr>) i)
                     | None \<Rightarrow> Returned (play_next e s1)))
             else
               Returned
                 (play_track_at_index e
                    (s\<lparr>playback_queue_ids := current_playlist_ids s,
                       current_queue_index := original_index\<rparr>)
                    original_index))
      else Returned s)"

text \<open>\<^verbatim>\<open>play_track\<close>; \<open>all_track_ids\<close> are the identifiers of
  \<^verbatim>\<open>get_all_tracks()\<close>.\<close>

definition play_track :: "env \<Rightarrow> manager \<Rightarrow> track option \<Rightarrow> int list \<Rightarrow> manager" where
  "play_track e s tr all_track_ids =
     (case (case tr of None \<Rightarrow> None | Some t \<Rightarrow> track_id t) of
        Some tid \<Rightarrow>
          if all_track_ids \<noteq> [] then set_playlist e s all_track_ids NORMAL (Some tid)
          else set_playlist e s [tid] NORMAL (Some tid)
      | None \<Rightarrow> emit (PlaybackError ''Cannot play track: Invalid track object'') s)"

subsection \<open>The handlers of the player's signals\<close>

text \<open>\<^verbatim>\<open>on_state_changed\<close>.\<close>

definition on_state_changed :: "manager \<Rightarrow> player_state \<Rightarrow> manager" where
  "on_state_changed s st = emit (StateChanged st) s"

text \<open>\<^verbatim>\<open>on_error\<close>: the call of \<^verbatim>\<open>QTimer.singleShot\<close> is a comment in the
  source.\<close>

definition on_error :: "manager \<Rightarrow> string \<Rightarrow> manager" where
  "on_error s error_string = emit (PlaybackError (''Playback error: '' @ error_string)) s"

text \<open>\<^verbatim>\<open>on_media_status_changed\<close>; \<open>src\<close> is what
  \<^verbatim>\<open>self.player.source().toLocalFile()\<close> returns.\<close>

definition on_media_status_changed :: "manager \<Rightarrow> media_status \<Rightarrow> string \<Rightarrow> manager" where
  "on_media_status_changed s status src =
     (if status = EndOfMedia \<and> \<not> playing_next_automatically s
      then single_shot 100 (s\<lparr>playing_next_automatically := True\<rparr>)
      else if status = InvalidMedia
      then single_shot 50 (emit (PlaybackError (''Invalid media: '' @ src)) s)
      else if status = LoadedMedia then player_call Play s
      else s)"

subsection \<open>The event loop\<close>

text \<open>A timer that fires leaves the list of pending timers and calls
  \<^verbatim>\<open>play_next\<close>.\<close>

definition fire :: "env \<Rightarrow> manager \<Rightarrow> nat \<Rightarrow> manager" where
  "fire e s d = play_next e (s\<lparr>timers := remove1 d (timers s)\<rparr>)"

text \<open>The event loop left alone: it fires the pending timers, the oldest first, until
  none is pending. It need not come to an end: \<open>None\<close> is a loop that runs forever.\<close>

partial_function (option) run_timers :: "env \<Rightarrow> manager \<Rightarrow> manager option" where
  "run_timers e s =
     (case timers s of
        [] \<Rightarrow> Some s
      | d # ds \<Rightarrow> run_timers e (fire e s d))"

text \<open>The states the manager can be in: the methods above, a timer that fires and the
  three handlers, called in any order with any arguments, while the database and the files
  may change between two calls. A call that raises leaves a state as well.
  (\<^verbatim>\<open>set_volume\<close> and \<^verbatim>\<open>seek\<close> only reach the audio output and the player.)\<close>

inductive reachable :: "manager \<Rightarrow> bool" where
  r_init: "reachable init"
| r_set_playlist: "reachable s \<Longrightarrow> reachable (set_playlist e s ids m start)"
| r_play_track_by_id: "reachable s \<Longrightarrow> reachable (state_of (play_track_by_id e rs s tid))"
| r_play_track_at_index: "reachable s \<Longrightarrow> reachable (play_track_at_index e s i)"
| r_play: "reachable s \<Longrightarrow> reachable (play e s st)"
| r_pause: "reachable s \<Longrightarrow> reachable (pause s st)"
| r_toggle_play_pause: "reachable s \<Longrightarrow> reachable (toggle_play_pause e s st)"
| r_stop: "reachable s \<Longrightarrow> reachable (stop s)"
| r_play_next: "reachable s \<Longrightarrow> reachable (play_next e s)"
| r_play_previous: "reachable s \<Longrightarrow> reachable (play_previous e s pos)"
| r_set_playback_mode: "reachable s \<Longrightarrow> reachable (state_of (set_playback_mode rs s m))"
| r_play_track: "reachable s \<Longrightarrow> reachable (play_track e s tr all_ids)"
| r_fire: "reachable s \<Longrightarrow> d \<in> set (timers s) \<Longrightarrow> reachable (fire e s d)"
| r_on_state_changed: "reachable s \<Longrightarrow> reachable (on_state_changed s st)"
| r_on_error: "reachable s \<Longrightarrow> reachable (on_error s msg)"
| r_on_media_status_changed:
    "reachable s \<Longrightarrow> reachable (on_media_status_changed s status src)"

subsection \<open>What the claims speak of\<close>

text \<open>The bounds of the position.\<close>

definition position_ok :: "manager \<Rightarrow> bool" where
  "position_ok s =
     (current_queue_index s = - 1 \<or>
      (0 \<le> current_queue_index s \<and>
       current_queue_index s < int (length (playback_queue_ids s))))"



text \<open>The signals \<^verbatim>\<open>queue_changed\<close> and \<^verbatim>\<open>mode_changed\<close> among those emitted.\<close>

fun is_queue_or_mode :: "signal \<Rightarrow> bool" where
  "is_queue_or_mode (QueueChanged q) = True"
| "is_queue_or_mode (ModeChanged m) = True"
| "is_queue_or_mode sg = False"

definition queue_mode_signals :: "manager \<Rightarrow> signal list" where
  "queue_mode_signals s = filter is_queue_or_mode (emitted s)"

text \<open>The one signal of loading track \<open>t\<close>: \<open>TrackChanged\<close> when it can be played,
  \<open>PlaybackError\<close> when it cannot.\<close>

definition load_signal :: "env \<Rightarrow> int \<Rightarrow> signal" where
  "load_signal e t =
     (case playable_path e (get_track_by_id e t) of
        Some p \<Rightarrow> TrackChanged (get_track_by_id e t)
      | None \<Rightarrow> PlaybackError (missing_msg t (get_track_by_id e t)))"


definition report :: "env \<Rightarrow> int \<Rightarrow> signal" where
  "report e t = PlaybackError (missing_msg t (get_track_by_id e t))"



subsection \<open>Concrete inputs\<close>

text \<open>A database in which every identifier resolves to a file that exists, one in which
  none does, and the manager after \<^verbatim>\<open>set_playlist([1, 2, 3], m)\<close> on the first.\<close>

definition env_present :: env where
  "env_present =
     \<lparr> get_track_by_id =
         (\<lambda>i. Some \<lparr>track_id = Some i, filepath = Some ''/music/a.mp3'',
                     title = ''A'', artist = ''B''\<rparr>),
       path_exists = (\<lambda>p. True) \<rparr>"

definition env_missing :: env where
  "env_missing = \<lparr> get_track_by_id = (\<lambda>i. None), path_exists = (\<lambda>p. False) \<rparr>"

definition loaded3 :: "int \<Rightarrow> manager" where
  "loaded3 m = set_playlist env_present init [1, 2, 3] m None"

section \<open>Properties\<close>

subsection \<open>Fields after the elementary effects\<close>

lemma emit_fields [simp]:
  "current_track (emit g s) = current_track s"
  "current_playlist_ids (emit g s) = current_playlist_ids s"
  "playback_queue_ids (emit g s) = playback_queue_ids s"
  "current_queue_index (emit g s) = current_queue_index s"
  "playback_mode (emit g s) = playback_mode s"
  "playing_next_automatically (emit g s) = playing_next_automatically s"
  "emitted (emit g s) = emitted s @ [g]"
  "player_cmds (emit g s) = player_cmds s"
  "timers (emit g s) = timers s"
  by (simp_all add: emit_def)

lemma player_call_fields [simp]:
  "current_track (player_call c s) = current_track s"
  "current_playlist_ids (player_call c s) = current_playlist_ids s"
  "playback_queue_ids (player_call c s) = playback_queue_ids s"
  "current_queue_index (player_call c s) = current_queue_index s"
  "playback_mode (player_call c s) = playback_mode s"
  "playing_next_automatically (player_call c s) = playing_next_automatically s"
  "emitted (player_call c s) = emitted s"
  "player_cmds (player_call c s) = player_cmds s @ [c]"
  "timers (player_call c s) = timers s"
  by (simp_all add: player_call_def)

lemma single_shot_fields [simp]:
  "current_track (single_shot d s) = current_track s"
  "current_playlist_ids (single_shot d s) = current_playlist_ids s"
  "playback_queue_ids (single_shot d s) = playback_queue_ids s"
  "current_queue_index (single_shot d s) = current_queue_index s"
  "playback_mode (single_shot d s) = playback_mode s"
  "playing_next_automatically (single_shot d s) = playing_next_automatically s"
  "emitted (single_shot d s) = emitted s"
  "player_cmds (single_shot d s) = player_cmds s"
  "timers (single_shot d s) = timers s @ [d]"
  by (simp_all add: single_shot_def)

lemma stop_fields [simp]:
  "current_track (stop s) = None"
  "current_playlist_ids (stop s) = current_playlist_ids s"
  "playback_queue_ids (stop s) = playback_queue_ids s"
  "current_queue_index (stop s) = - 1"
  "playback_mode (stop s) = playback_mode s"
  "playing_next_automatically (stop s) = playing_next_automatically s"
  "emitted (stop s) = emitted s @ [TrackChanged None]"
  "player_cmds (stop s) = player_cmds s @ [Stop]"
  "timers (stop s) = timers s"
  by (simp_all add: stop_def)

lemma load_current_fields [simp]:
  "current_playlist_ids (load_current e s) = current_playlist_ids s"
  "playback_queue_ids (load_current e s) = playback_queue_ids s"
  "current_queue_index (load_current e s) = current_queue_index s"
  "playback_mode (load_current e s) = playback_mode s"
  by (simp_all add: load_current_def Let_def split: option.split)

lemma play_track_at_index_fields [simp]:
  "current_playlist_ids (play_track_at_index e s i) = current_playlist_ids s"
  "playback_queue_ids (play_track_at_index e s i) = playback_queue_ids s"
  "playback_mode (play_track_at_index e s i) = playback_mode s"
  by (simp_all add: play_track_at_index_def)

lemma play_track_at_index_position:
  "current_queue_index (play_track_at_index e s i) =
     (if 0 \<le> i \<and> i < int (length (playback_queue_ids s)) then i else - 1)"
  by (simp add: play_track_at_index_def)

subsection \<open>Concrete states\<close>

lemmas eval_defs =
  set_playlist_def play_track_at_index_def load_current_def stop_def play_next_def
  play_previous_def playable_path_def emit_def player_call_def single_shot_def
  env_present_def env_missing_def init_def Let_def

lemma loaded3_eval:
  "loaded3 m =
     \<lparr> current_track = Some \<lparr>track_id = Some 1, filepath = Some ''/music/a.mp3'',
                               title = ''A'', artist = ''B''\<rparr>,
       current_playlist_ids = [],
       playback_queue_ids = [1, 2, 3],
       current_queue_index = 0,
       playback_mode = m,
       playing_next_automatically = False,
       emitted = [TrackChanged (Some \<lparr>track_id = Some 1, filepath = Some ''/music/a.mp3'',
                                       title = ''A'', artist = ''B''\<rparr>)],
       player_cmds = [SetSource ''/music/a.mp3'', Play],
       timers = [] \<rparr>"
  by (simp add: loaded3_def eval_defs)

subsection \<open>Rejected input\<close>

text \<open>C4: \<^verbatim>\<open>set_playlist\<close> with an empty list of tracks returns before it changes
  anything: the queue, the position, the mode and the signals emitted so far are those of
  the state before the call, so no \<open>TrackChanged\<close> signal is emitted.\<close>

theorem set_playlist_empty:
  "set_playlist e s [] m start = s"
  by (simp add: set_playlist_def)

text \<open>C8: for an index outside \<open>0 \<le> index < len(queue)\<close>, \<^verbatim>\<open>play_track_at_index\<close>
  is \<^verbatim>\<open>stop\<close>: the position becomes \<open>-1\<close>, the current track is cleared, the only call
  on the player is \<open>Stop\<close>, the only signal is \<open>TrackChanged None\<close> and no timer is set.\<close>

theorem play_track_at_index_invalid:
  assumes "\<not> (0 \<le> i \<and> i < int (length (playback_queue_ids s)))"
  shows "play_track_at_index e s i = stop s \<and>
         current_queue_index (play_track_at_index e s i) = - 1 \<and>
         current_track (play_track_at_index e s i) = None \<and>
         player_cmds (play_track_at_index e s i) = player_cmds s @ [Stop] \<and>
         emitted (play_track_at_index e s i) = emitted s @ [TrackChanged None] \<and>
         timers (play_track_at_index e s i) = timers s"
proof -
  from assms have "play_track_at_index e s i = stop s"
    by (auto simp add: play_track_at_index_def)
  then show ?thesis by simp
qed

theorem play_track_at_index_invalid_witness:
  "\<not> (0 \<le> (3::int) \<and> 3 < int (length (playback_queue_ids (loaded3 NORMAL)))) \<and>
   play_track_at_index env_present (loaded3 NORMAL) 3 = stop (loaded3 NORMAL) \<and>
   current_queue_index (play_track_at_index env_present (loaded3 NORMAL) 3) = - 1 \<and>
   current_track (play_track_at_index env_present (loaded3 NORMAL) 3) = None \<and>
   \<not> (0 \<le> (- 2::int) \<and> - 2 < int (length (playback_queue_ids (loaded3 NORMAL)))) \<and>
   current_queue_index (play_track_at_index env_present (loaded3 NORMAL) (- 2)) = - 1"
  using play_track_at_index_invalid [of 3 "loaded3 NORMAL" env_present]
    play_track_at_index_invalid [of "- 2" "loaded3 NORMAL" env_present]
  by (simp add: loaded3_eval)

subsection \<open>The ends of the queue\<close>

text \<open>C5 (amended): with a non-empty queue in mode \<open>REPEAT_ALL\<close>, \<^verbatim>\<open>play_next\<close> at the
  last index moves the position to 0, and \<^verbatim>\<open>play_previous\<close> at index 0 moves it to the
  last index when the player is at most 3000 ms into the track.\<close>

theorem repeat_all_wraps:
  assumes "playback_queue_ids s \<noteq> []" and "playback_mode s = REPEAT_ALL"
  shows "(current_queue_index s = int (length (playback_queue_ids s)) - 1 \<longrightarrow>
            current_queue_index (play_next e s) = 0) \<and>
         (current_queue_index s = 0 \<and> pos \<le> 3000 \<longrightarrow>
            current_queue_index (play_previous e s pos) =
              int (length (playback_queue_ids s)) - 1)"
  using assms
  by (simp add: play_next_def play_previous_def play_track_at_index_position Let_def)

lemma at_last_eval:
  "playback_queue_ids (play_track_at_index env_present (loaded3 m) 2) = [1, 2, 3]"
  "playback_mode (play_track_at_index env_present (loaded3 m) 2) = m"
  "current_queue_index (play_track_at_index env_present (loaded3 m) 2) = 2"
  by (simp_all add: loaded3_eval play_track_at_index_position)

theorem repeat_all_wraps_witness:
  "playback_queue_ids (loaded3 REPEAT_ALL) \<noteq> [] \<and>
   playback_mode (loaded3 REPEAT_ALL) = REPEAT_ALL \<and>
   current_queue_index (loaded3 REPEAT_ALL) = 0 \<and>
   current_queue_index (play_previous env_present (loaded3 REPEAT_ALL) 1500) = 2 \<and>
   current_queue_index (play_track_at_index env_present (loaded3 REPEAT_ALL) 2) = 2 \<and>
   current_queue_index
     (play_next env_present (play_track_at_index env_present (loaded3 REPEAT_ALL) 2)) = 0"
  using repeat_all_wraps [of "play_track_at_index env_present (loaded3 REPEAT_ALL) 2"
      env_present 1500]
    repeat_all_wraps [of "loaded3 REPEAT_ALL" env_present 1500]
  by (simp add: at_last_eval) (simp add: loaded3_eval)

text \<open>C5 as stated fails: more than 3000 ms into the track, \<^verbatim>\<open>play_previous\<close> at index 0
  of a queue of three in mode \<open>REPEAT_ALL\<close> restarts the track and leaves the position at 0.\<close>

theorem previous_after_three_seconds_counterexample:
  "playback_mode (loaded3 REPEAT_ALL) = REPEAT_ALL \<and>
   playback_queue_ids (loaded3 REPEAT_ALL) = [1, 2, 3] \<and>
   current_queue_index (loaded3 REPEAT_ALL) = 0 \<and>
   current_queue_index (play_previous env_present (loaded3 REPEAT_ALL) 5000) = 0"
  by (simp add: loaded3_eval play_previous_def)

text \<open>C6 (amended): in mode \<open>REPEAT_ONE\<close>, when the position is an index of the queue,
  \<^verbatim>\<open>play_next\<close> and \<^verbatim>\<open>play_previous\<close> leave the position where it is.\<close>

theorem repeat_one_keeps_position:
  assumes "playback_mode s = REPEAT_ONE"
    and "0 \<le> current_queue_index s"
    and "current_queue_index s < int (length (playback_queue_ids s))"
  shows "current_queue_index (play_next e s) = current_queue_index s \<and>
         current_queue_index (play_previous e s pos) = current_queue_index s"
  using assms
  by (auto simp add: play_next_def play_previous_def play_track_at_index_position Let_def)

theorem repeat_one_keeps_position_witness:
  "playback_mode (play_track_at_index env_present (loaded3 REPEAT_ONE) 2) = REPEAT_ONE \<and>
   current_queue_index (play_track_at_index env_present (loaded3 REPEAT_ONE) 2) = 2 \<and>
   playback_queue_ids (play_track_at_index env_present (loaded3 REPEAT_ONE) 2) = [1, 2, 3] \<and>
   current_queue_index
     (play_next env_present (play_track_at_index env_present (loaded3 REPEAT_ONE) 2)) = 2 \<and>
   current_queue_index
     (play_previous env_present (play_track_at_index env_present (loaded3 REPEAT_ONE) 2) 0) = 2"
  using repeat_one_keeps_position
    [of "play_track_at_index env_present (loaded3 REPEAT_ONE) 2" env_present 0]
  by (simp add: at_last_eval) (simp add: loaded3_eval)

text \<open>C6 as stated fails: after \<^verbatim>\<open>stop\<close> the position is \<open>-1\<close>, and \<^verbatim>\<open>play_previous\<close>
  in mode \<open>REPEAT_ONE\<close> then moves it to 0.\<close>

theorem repeat_one_previous_counterexample:
  "playback_mode (stop (loaded3 REPEAT_ONE)) = REPEAT_ONE \<and>
   playback_queue_ids (stop (loaded3 REPEAT_ONE)) = [1, 2, 3] \<and>
   current_queue_index (stop (loaded3 REPEAT_ONE)) = - 1 \<and>
   current_queue_index (play_previous env_present (stop (loaded3 REPEAT_ONE)) 0) = 0"
  by (simp add: loaded3_eval play_previous_def play_track_at_index_position)

subsection \<open>The bounds of the position\<close>

lemma py_index_bounds:
  "py_index xs x = Some i \<Longrightarrow> 0 \<le> i \<and> i < int (length xs)"
  by (induction xs arbitrary: i) (auto split: if_splits)

lemma py_index_None: "py_index xs x = None \<longleftrightarrow> x \<notin> set xs"
  by (induction xs) auto

lemma py_get_in_range:
  "0 \<le> i \<Longrightarrow> i < int (length xs) \<Longrightarrow> py_get xs i = Some (xs ! nat i)"
  by (simp add: py_get_def)

lemma position_ok_stop: "position_ok (stop s)"
  by (simp add: position_ok_def)

lemma position_ok_play_track_at_index: "position_ok (play_track_at_index e s i)"
  by (simp add: position_ok_def play_track_at_index_position)

lemma position_ok_player_call: "position_ok (player_call c s) = position_ok s"
  by (simp add: position_ok_def)

lemma position_ok_emit: "position_ok (emit g s) = position_ok s"
  by (simp add: position_ok_def)

lemma position_ok_single_shot: "position_ok (single_shot d s) = position_ok s"
  by (simp add: position_ok_def)

lemma position_ok_timers_update: "position_ok (s\<lparr>timers := ts\<rparr>) = position_ok s"
  by (simp add: position_ok_def)

lemma position_ok_set_playlist:
  "position_ok s \<Longrightarrow> position_ok (set_playlist e s ids m start)"
proof (cases "ids = []")
  case True
  assume "position_ok s"
  with True show ?thesis by (simp add: set_playlist_def)
next
  case False
  then show ?thesis
    by (auto simp add: set_playlist_def position_ok_def Let_def
        split: option.split dest: py_index_bounds)
qed

lemma position_ok_play: "position_ok s \<Longrightarrow> position_ok (play e s st)"
  by (simp add: play_def position_ok_player_call position_ok_emit
      position_ok_play_track_at_index)

lemma position_ok_pause: "position_ok s \<Longrightarrow> position_ok (pause s st)"
  by (simp add: pause_def position_ok_player_call)

lemma position_ok_play_next: "position_ok (play_next e s)"
  by (simp add: play_next_def Let_def position_ok_stop position_ok_player_call
      position_ok_play_track_at_index)

lemma position_ok_play_previous:
  "position_ok s \<Longrightarrow> position_ok (play_previous e s pos)"
  by (simp add: play_previous_def Let_def position_ok_stop position_ok_player_call
      position_ok_play_track_at_index)

lemma position_ok_fire: "position_ok (fire e s d)"
  by (simp add: fire_def position_ok_play_next)

lemma position_ok_toggle_play_pause:
  "position_ok s \<Longrightarrow> position_ok (toggle_play_pause e s st)"
  by (simp add: toggle_play_pause_def position_ok_play position_ok_pause)

lemma position_ok_play_track:
  "position_ok s \<Longrightarrow> position_ok (play_track e s tr all_ids)"
  by (simp add: play_track_def position_ok_set_playlist position_ok_emit
      split: option.split)

lemma position_ok_handlers:
  "position_ok s \<Longrightarrow> position_ok (on_state_changed s st)"
  "position_ok s \<Longrightarrow> position_ok (on_error s msg)"
  "position_ok s \<Longrightarrow> position_ok (on_media_status_changed s status src)"
  by (simp_all add: on_state_changed_def on_error_def on_media_status_changed_def
      position_ok_emit position_ok_single_shot position_ok_player_call)
     (simp add: position_ok_def)

text \<open>No method assigns \<^verbatim>\<open>current_playlist_ids\<close>.\<close>

lemma shuffle_queue_current_playlist_ids:
  "current_playlist_ids (state_of (shuffle_queue rs s)) = current_playlist_ids s"
  by (simp add: shuffle_queue_def Let_def split: option.split)

lemma current_playlist_ids_frame:
  "current_playlist_ids (set_playlist e s ids m start) = current_playlist_ids s"
  "current_playlist_ids (play e s st) = current_playlist_ids s"
  "current_playlist_ids (pause s st) = current_playlist_ids s"
  "current_playlist_ids (toggle_play_pause e s st) = current_playlist_ids s"
  "current_playlist_ids (play_track e s tr all_ids) = current_playlist_ids s"
  "current_playlist_ids (play_next e s) = current_playlist_ids s"
  "current_playlist_ids (play_previous e s pos) = current_playlist_ids s"
  "current_playlist_ids (fire e s d) = current_playlist_ids s"
  "current_playlist_ids (on_state_changed s st) = current_playlist_ids s"
  "current_playlist_ids (on_error s msg) = current_playlist_ids s"
  "current_playlist_ids (on_media_status_changed s status src) = current_playlist_ids s"
  by (simp_all add: set_playlist_def play_def pause_def toggle_play_pause_def play_track_def
      play_next_def play_previous_def fire_def on_state_changed_def on_error_def
      on_media_status_changed_def Let_def split: option.split)

text \<open>With an empty \<^verbatim>\<open>current_playlist_ids\<close>, a change of mode empties the queue.\<close>

lemma set_playback_mode_empty_original:
  assumes "current_playlist_ids s = []" and "position_ok s" and "mode \<noteq> playback_mode s"
  shows "set_playback_mode rs s mode =
           Returned (emit (ModeChanged mode) (emit (QueueChanged [])
             (s\<lparr>playback_mode := mode, playback_queue_ids := [],
                 current_queue_index := - 1\<rparr>)))"
proof -
  have get: "current_queue_index s \<noteq> - 1 \<Longrightarrow>
      py_get (playback_queue_ids s) (current_queue_index s) \<noteq> None"
    using assms(2) by (auto simp add: position_ok_def py_get_in_range)
  show ?thesis
    using assms(1,3) get
    by (cases "current_queue_index s = - 1")
       (auto simp add: set_playback_mode_def shuffle_queue_def Let_def)
qed

text \<open>With an empty \<^verbatim>\<open>current_playlist_ids\<close>, \<^verbatim>\<open>play_track_by_id\<close> plays a track
  of the queue or does nothing.\<close>

lemma play_track_by_id_empty_original:
  assumes "current_playlist_ids s = []"
  shows "play_track_by_id e rs s tid = Returned s \<or>
         (\<exists>i. play_track_by_id e rs s tid = Returned (play_track_at_index e s i))"
  using assms by (auto simp add: play_track_by_id_def py_index_None split: option.split)

lemma set_playback_mode_same:
  "set_playback_mode rs s (playback_mode s) = Returned s"
  by (simp add: set_playback_mode_def)

lemma reachable_inv:
  "reachable s \<Longrightarrow> position_ok s \<and> current_playlist_ids s = []"
proof (induction rule: reachable.induct)
  case r_init
  show ?case by (simp add: init_def position_ok_def)
next
  case (r_play_track_by_id s e rs tid)
  from play_track_by_id_empty_original [of s e rs tid] r_play_track_by_id.IH
  show ?case by (auto simp add: position_ok_play_track_at_index)
next
  case (r_set_playback_mode s rs m)
  show ?case
  proof (cases "m = playback_mode s")
    case True
    with r_set_playback_mode.IH show ?thesis by (simp add: set_playback_mode_same)
  next
    case False
    with r_set_playback_mode.IH show ?thesis
      by (simp add: set_playback_mode_empty_original position_ok_def)
  qed
qed (simp_all add: position_ok_set_playlist position_ok_play_track_at_index
    position_ok_play position_ok_pause position_ok_toggle_play_pause position_ok_stop
    position_ok_play_next position_ok_play_previous position_ok_play_track position_ok_fire
    position_ok_handlers current_playlist_ids_frame)

text \<open>C9: in every state the manager can reach, the position is \<open>-1\<close> or an index of
  the queue.\<close>

theorem position_bounds_invariant:
  assumes "reachable s"
  shows "current_queue_index s = - 1 \<or>
         (0 \<le> current_queue_index s \<and>
          current_queue_index s < int (length (playback_queue_ids s)))"
  using reachable_inv [OF assms] by (simp add: position_ok_def)

theorem position_bounds_invariant_witness:
  "reachable (play_next env_missing (loaded3 NORMAL)) \<and>
   (current_queue_index (play_next env_missing (loaded3 NORMAL)) = - 1 \<or>
    (0 \<le> current_queue_index (play_next env_missing (loaded3 NORMAL)) \<and>
     current_queue_index (play_next env_missing (loaded3 NORMAL))
       < int (length (playback_queue_ids (play_next env_missing (loaded3 NORMAL))))))"
proof -
  have "reachable (loaded3 NORMAL)"
    unfolding loaded3_def by (rule r_set_playlist [OF r_init])
  then have r: "reachable (play_next env_missing (loaded3 NORMAL))"
    by (rule r_play_next)
  from position_bounds_invariant [OF r] r show ?thesis by simp
qed


subsection \<open>A queue of tracks that cannot be played\<close>




text \<open>One step of the event loop.\<close>

lemma run_timers_empty: "timers s = [] \<Longrightarrow> run_timers e s = Some s"
  by (subst run_timers.simps) simp

lemma run_timers_step:
  "timers s = d # ds \<Longrightarrow> run_timers e s = run_timers e (fire e s d)"
  by (subst run_timers.simps) simp










subsection \<open>The handlers\<close>

lemma timers_reset:
  "timers s = [] \<Longrightarrow> (single_shot d s)\<lparr>timers := []\<rparr> = s"
  by (cases s) (simp add: single_shot_def)

text \<open>C7 (amended): an error that the player reports to \<^verbatim>\<open>on_error\<close> is answered by one
  \<open>PlaybackError\<close> signal and nothing else: no timer is set, and the event loop left
  alone rests in that very state. A status \<open>InvalidMedia\<close> is answered like a track that
  cannot be played: one \<open>PlaybackError\<close> signal and a timer of 50 ms, after which the
  event loop goes on with \<^verbatim>\<open>play_next\<close>.\<close>

theorem on_error_reports_only:
  assumes "timers s = []"
  shows "on_error s msg = s\<lparr>emitted := emitted s @ [PlaybackError (''Playback error: '' @ msg)]\<rparr> \<and>
         run_timers e (on_error s msg) = Some (on_error s msg) \<and>
         timers (on_media_status_changed s InvalidMedia src) = [50] \<and>
         emitted (on_media_status_changed s InvalidMedia src) =
           emitted s @ [PlaybackError (''Invalid media: '' @ src)] \<and>
         run_timers e (on_media_status_changed s InvalidMedia src) =
           run_timers e (play_next e (emit (PlaybackError (''Invalid media: '' @ src)) s))"
proof -
  define g where "g = PlaybackError (''Invalid media: '' @ src)"
  have a: "on_error s msg = s\<lparr>emitted := emitted s @ [PlaybackError (''Playback error: '' @ msg)]\<rparr>"
    by (simp add: on_error_def emit_def)
  have b: "run_timers e (on_error s msg) = Some (on_error s msg)"
    using assms by (simp add: run_timers_empty on_error_def)
  have m: "on_media_status_changed s InvalidMedia src = single_shot 50 (emit g s)"
    by (simp add: on_media_status_changed_def g_def)
  have r: "(single_shot 50 (emit g s))\<lparr>timers := []\<rparr> = emit g s"
    by (rule timers_reset) (simp add: assms)
  have t: "timers (single_shot 50 (emit g s)) = [50]"
    using assms by simp
  have "fire e (single_shot 50 (emit g s)) 50 = play_next e (emit g s)"
    unfolding fire_def t by (simp add: r)
  with run_timers_step [OF t, of e]
  have c: "run_timers e (single_shot 50 (emit g s)) = run_timers e (play_next e (emit g s))"
    by simp
  have d: "emitted (single_shot 50 (emit g s)) = emitted s @ [g]"
    by simp
  show ?thesis
    unfolding m using a b c d t unfolding g_def by blast
qed

theorem on_error_reports_only_witness:
  "timers (loaded3 NORMAL) = [] \<and>
   on_error (loaded3 NORMAL) ''decoder failed'' =
     (loaded3 NORMAL)\<lparr>emitted := emitted (loaded3 NORMAL) @
        [PlaybackError (''Playback error: '' @ ''decoder failed'')]\<rparr> \<and>
   run_timers env_present (on_error (loaded3 NORMAL) ''decoder failed'') =
     Some (on_error (loaded3 NORMAL) ''decoder failed'') \<and>
   timers (on_media_status_changed (loaded3 NORMAL) InvalidMedia ''/music/a.mp3'') = [50]"
proof -
  have t: "timers (loaded3 NORMAL) = []" by (simp add: loaded3_eval)
  from on_error_reports_only [OF t, of "''decoder failed''" env_present "''/music/a.mp3''"] t
  show ?thesis by blast
qed

text \<open>C7 as stated fails: after \<^verbatim>\<open>on_error\<close> on a queue of three tracks the position is
  still 0, no timer is pending and the event loop rests; on the empty queue of a new manager
  \<^verbatim>\<open>on_error\<close> makes no call on the player, so nothing is stopped.\<close>

theorem on_error_counterexample:
  "playback_queue_ids (loaded3 NORMAL) = [1, 2, 3] \<and>
   current_queue_index (on_error (loaded3 NORMAL) ''decoder failed'') = 0 \<and>
   timers (on_error (loaded3 NORMAL) ''decoder failed'') = [] \<and>
   run_timers env_present (on_error (loaded3 NORMAL) ''decoder failed'') =
     Some (on_error (loaded3 NORMAL) ''decoder failed'') \<and>
   playback_queue_ids init = [] \<and>
   player_cmds (on_error init ''decoder failed'') = []"
  by (simp add: loaded3_eval on_error_def run_timers_empty init_def)

subsection \<open>Signals\<close>

lemma queue_mode_signals_effects [simp]:
  "queue_mode_signals (player_call c s) = queue_mode_signals s"
  "queue_mode_signals (single_shot d s) = queue_mode_signals s"
  "queue_mode_signals (emit (TrackChanged tr) s) = queue_mode_signals s"
  "queue_mode_signals (emit (PlaybackError msg) s) = queue_mode_signals s"
  "queue_mode_signals (emit (StateChanged st) s) = queue_mode_signals s"
  "queue_mode_signals (s\<lparr>timers := ts\<rparr>) = queue_mode_signals s"
  "queue_mode_signals (s\<lparr>current_queue_index := i\<rparr>) = queue_mode_signals s"
  "queue_mode_signals (s\<lparr>playing_next_automatically := b\<rparr>) = queue_mode_signals s"
  by (simp_all add: queue_mode_signals_def)

lemma queue_mode_signals_stop [simp]:
  "queue_mode_signals (stop s) = queue_mode_signals s"
  by (simp add: queue_mode_signals_def)

lemma queue_mode_signals_load_current [simp]:
  "queue_mode_signals (load_current e s) = queue_mode_signals s"
  by (simp add: load_current_def Let_def report_def queue_mode_signals_def emit_def
      player_call_def single_shot_def split: option.split)

lemma queue_mode_signals_play_track_at_index [simp]:
  "queue_mode_signals (play_track_at_index e s i) = queue_mode_signals s"
  by (simp add: play_track_at_index_def)

lemma queue_mode_signals_play_next [simp]:
  "queue_mode_signals (play_next e s) = queue_mode_signals s"
  by (simp add: play_next_def Let_def)

lemma queue_mode_signals_set_playlist:
  "queue_mode_signals (set_playlist e s ids m start) = queue_mode_signals s"
  by (simp add: set_playlist_def Let_def) (simp add: queue_mode_signals_def)

lemma queue_mode_signals_others:
  "queue_mode_signals (play e s st) = queue_mode_signals s"
  "queue_mode_signals (pause s st) = queue_mode_signals s"
  "queue_mode_signals (play_previous e s pos) = queue_mode_signals s"
  "queue_mode_signals (fire e s d) = queue_mode_signals s"
  "queue_mode_signals (on_state_changed s st) = queue_mode_signals s"
  "queue_mode_signals (on_error s msg) = queue_mode_signals s"
  "queue_mode_signals (on_media_status_changed s status src) = queue_mode_signals s"
  by (simp_all add: play_def pause_def play_previous_def fire_def on_state_changed_def
      on_error_def on_media_status_changed_def Let_def)

lemma shuffle_queue_frame:
  "emitted (state_of (shuffle_queue rs s)) = emitted s"
  "playback_mode (state_of (shuffle_queue rs s)) = playback_mode s"
  by (simp_all add: shuffle_queue_def Let_def split: option.split)

lemma queue_mode_signals_emitted:
  "emitted s' = emitted s \<Longrightarrow> queue_mode_signals s' = queue_mode_signals s"
  by (simp add: queue_mode_signals_def)

lemma queue_mode_signals_shuffle_queue:
  "queue_mode_signals (state_of (shuffle_queue rs s)) = queue_mode_signals s"
  by (rule queue_mode_signals_emitted) (rule shuffle_queue_frame)

lemma queue_mode_signals_play_track_by_id:
  "queue_mode_signals (state_of (play_track_by_id e rs s tid)) = queue_mode_signals s"
proof -
  let ?s0 = "s\<lparr>playback_queue_ids := current_playlist_ids s\<rparr>"
  have u: "queue_mode_signals (s\<lparr>playback_queue_ids := q\<rparr>) = queue_mode_signals s" for q
    by (simp add: queue_mode_signals_def)
  have sh: "queue_mode_signals s1 = queue_mode_signals s"
    if "shuffle_queue rs ?s0 = Returned s1 \<or> shuffle_queue rs ?s0 = Raised x s1" for s1 x
    using that queue_mode_signals_shuffle_queue [of rs ?s0] by (auto simp add: u)
  show ?thesis
    by (auto simp add: play_track_by_id_def u sh split: option.split outcome.split)
qed

lemma queue_mode_signals_play_track:
  "queue_mode_signals (play_track e s tr all_ids) = queue_mode_signals s"
  by (simp add: play_track_def queue_mode_signals_set_playlist split: option.split)

lemma queue_mode_signals_toggle_play_pause:
  "queue_mode_signals (toggle_play_pause e s st) = queue_mode_signals s"
  by (simp add: toggle_play_pause_def queue_mode_signals_others)

lemma load_current_emitted:
  "emitted (load_current e s) =
     emitted s @ [load_signal e (playback_queue_ids s ! nat (current_queue_index s))]"
  by (simp add: load_current_def load_signal_def Let_def split: option.split)

lemma set_playlist_nonempty:
  assumes "ids \<noteq> []"
  shows "playback_queue_ids (set_playlist e s ids m start) = ids"
    and "playback_mode (set_playlist e s ids m start) = m"
    and "emitted (set_playlist e s ids m start) =
           emitted s @ [load_signal e (ids ! nat (current_queue_index (set_playlist e s ids m start)))]"
  using assms by (simp_all add: set_playlist_def Let_def load_current_emitted)

text \<open>C10: \<^verbatim>\<open>set_playlist\<close> with a non-empty list replaces the queue and the mode and
  emits one signal, \<open>TrackChanged\<close> or \<open>PlaybackError\<close>; neither it nor any other
  method or handler except \<^verbatim>\<open>set_playback_mode\<close> adds a \<open>QueueChanged\<close> or a
  \<open>ModeChanged\<close> signal to those emitted.\<close>

theorem set_playlist_signals:
  assumes "ids \<noteq> []"
  shows "playback_queue_ids (set_playlist e s ids m start) = ids \<and>
         playback_mode (set_playlist e s ids m start) = m \<and>
         emitted (set_playlist e s ids m start) =
           emitted s @
           [load_signal e (ids ! nat (current_queue_index (set_playlist e s ids m start)))] \<and>
         queue_mode_signals (set_playlist e s ids m start) = queue_mode_signals s \<and>
         queue_mode_signals (play_track_at_index e s i) = queue_mode_signals s \<and>
         queue_mode_signals (play e s st) = queue_mode_signals s \<and>
         queue_mode_signals (pause s st) = queue_mode_signals s \<and>
         queue_mode_signals (toggle_play_pause e s st) = queue_mode_signals s \<and>
         queue_mode_signals (state_of (play_track_by_id e rs s tid)) = queue_mode_signals s \<and>
         queue_mode_signals (play_track e s tr all_ids) = queue_mode_signals s \<and>
         queue_mode_signals (stop s) = queue_mode_signals s \<and>
         queue_mode_signals (play_next e s) = queue_mode_signals s \<and>
         queue_mode_signals (play_previous e s pos) = queue_mode_signals s \<and>
         queue_mode_signals (fire e s d) = queue_mode_signals s \<and>
         queue_mode_signals (on_state_changed s st) = queue_mode_signals s \<and>
         queue_mode_signals (on_error s msg) = queue_mode_signals s \<and>
         queue_mode_signals (on_media_status_changed s status src) = queue_mode_signals s"
  using set_playlist_nonempty [OF assms, of e s m start]
  by (simp add: queue_mode_signals_set_playlist queue_mode_signals_others
      queue_mode_signals_play_track_by_id queue_mode_signals_play_track
      queue_mode_signals_toggle_play_pause)

theorem set_playlist_signals_witness:
  "[1, 2, 3] \<noteq> ([] :: int list) \<and>
   playback_queue_ids (set_playlist env_present init [1, 2, 3] SHUFFLE None) = [1, 2, 3] \<and>
   playback_mode (set_playlist env_present init [1, 2, 3] SHUFFLE None) = SHUFFLE \<and>
   queue_mode_signals (set_playlist env_present init [1, 2, 3] SHUFFLE None) = [] \<and>
   queue_mode_signals (set_playlist env_missing init [1, 2, 3] SHUFFLE None) = []"
proof -
  have n: "[1, 2, 3] \<noteq> ([] :: int list)" by simp
  have i: "queue_mode_signals init = []" by (simp add: queue_mode_signals_def init_def)
  from set_playlist_signals [OF n, of env_present init SHUFFLE None]
    set_playlist_signals [OF n, of env_missing init SHUFFLE None] i
  show ?thesis by simp
qed

text \<open>What \<^verbatim>\<open>set_playback_mode\<close> emits when the mode changes and the call returns.\<close>

lemma set_playback_mode_emitted:
  assumes "set_playback_mode rs s m = Returned s'" and "m \<noteq> playback_mode s"
  shows "emitted s' = emitted s @ [QueueChanged (playback_queue_ids s'), ModeChanged m]"
proof -
  let ?s2 = "s\<lparr>playback_mode := m, playback_queue_ids := current_playlist_ids s\<rparr>"
  let ?o = "if m = SHUFFLE then shuffle_queue rs ?s2 else Returned ?s2"
  have fr: "emitted (state_of ?o) = emitted s" "playback_mode (state_of ?o) = m"
    by (simp_all add: shuffle_queue_frame)
  from assms obtain s3 where o: "?o = Returned s3"
    by (cases ?o) (auto simp add: set_playback_mode_def Let_def split: if_splits)
  with fr have s3: "emitted s3 = emitted s" "playback_mode s3 = m"
    by simp_all
  from assms o have "\<exists>idx. s' = emit (ModeChanged (playback_mode s3))
      (emit (QueueChanged (playback_queue_ids s3)) (s3\<lparr>current_queue_index := idx\<rparr>))"
    by (auto simp add: set_playback_mode_def Let_def split: if_splits)
  with s3 show ?thesis by auto
qed

subsection \<open>The original order\<close>

text \<open>In a state the manager can reach, entering and leaving \<open>SHUFFLE\<close> empties the
  queue.\<close>

lemma round_trip_empties_queue:
  assumes "reachable s" and "m \<noteq> SHUFFLE"
  shows "playback_queue_ids
           (state_of (set_playback_mode rs' (state_of (set_playback_mode rs s SHUFFLE)) m)) = []"
proof -
  let ?s1 = "state_of (set_playback_mode rs s SHUFFLE)"
  have r1: "reachable ?s1" using assms(1) by (rule r_set_playback_mode)
  have "playback_mode ?s1 = SHUFFLE"
  proof (cases "playback_mode s = SHUFFLE")
    case True
    with set_playback_mode_same [of rs s] show ?thesis by simp
  next
    case False
    with reachable_inv [OF assms(1)] show ?thesis
      by (simp add: set_playback_mode_empty_original)
  qed
  with assms(2) have "m \<noteq> playback_mode ?s1" by simp
  with reachable_inv [OF r1] show ?thesis
    by (simp add: set_playback_mode_empty_original)
qed

text \<open>C1 fails on the code: on a new manager, after \<^verbatim>\<open>set_playlist([1, 2, 3], NORMAL)\<close>,
  \<^verbatim>\<open>set_playback_mode(SHUFFLE)\<close> and \<^verbatim>\<open>set_playback_mode(NORMAL)\<close> both return, and
  the queue is empty, not \<open>[1, 2, 3]\<close>: \<^verbatim>\<open>current_playlist_ids\<close> was never assigned.\<close>

theorem shuffle_round_trip_loses_queue:
  "playback_queue_ids (loaded3 NORMAL) = [1, 2, 3] \<and>
   current_playlist_ids (loaded3 NORMAL) = [] \<and>
   returned (set_playback_mode [1, 0] (loaded3 NORMAL) SHUFFLE) \<and>
   returned (set_playback_mode []
     (state_of (set_playback_mode [1, 0] (loaded3 NORMAL) SHUFFLE)) NORMAL) \<and>
   playback_queue_ids (state_of (set_playback_mode []
     (state_of (set_playback_mode [1, 0] (loaded3 NORMAL) SHUFFLE)) NORMAL)) = [] \<and>
   current_queue_index (state_of (set_playback_mode []
     (state_of (set_playback_mode [1, 0] (loaded3 NORMAL) SHUFFLE)) NORMAL)) = - 1"
  by (simp add: loaded3_eval set_playback_mode_def shuffle_queue_def py_get_def truthy_def
      Let_def emit_def)

text \<open>C2 fails on the code: \<^verbatim>\<open>set_playlist([1, 2, 3], NORMAL)\<close> on a new manager leaves
  \<^verbatim>\<open>current_playlist_ids\<close> empty, and \<^verbatim>\<open>set_playlist([1, 2, 3], SHUFFLE)\<close> leaves
  the queue in the order given.\<close>

theorem set_playlist_leaves_original_order_unset:
  "current_playlist_ids (set_playlist env_present init [1, 2, 3] NORMAL None) = [] \<and>
   playback_queue_ids (set_playlist env_present init [1, 2, 3] SHUFFLE None) = [1, 2, 3]"
  by (simp add: set_playlist_nonempty current_playlist_ids_frame) (simp add: init_def)

end
